theory Spec2Isabelle
  imports Complex_Main
begin

section \<open>Water-quality prediction scripts: data model\<close>

text \<open>
  The development embeds the inference scripts under \<^verbatim>\<open>backend/python-scripts\<close>:
  \<^verbatim>\<open>predict_sensor_only.py\<close>, \<^verbatim>\<open>predict_hybrid.py\<close>, \<^verbatim>\<open>predict_image_only.py\<close>,
  \<^verbatim>\<open>predict.py\<close> and \<^verbatim>\<open>predict_s3.py\<close>.

  Conventions of the embedding:
  \<^item> a finite Python float is a \<open>real\<close>; the thresholds of the scripts are compared
    exactly, binary rounding of floats is not modelled;
  \<^item> a Python \<open>int\<close> is an \<open>int\<close>;
  \<^item> a \<open>dict\<close> with string keys is an association list in insertion order;
  \<^item> an exception is a value of type \<open>exn\<close>, and a script that prints
    \<^verbatim>\<open>{"error": ...}\<close> and exits returns \<open>Inl\<close> of a \<open>failure\<close>;
  \<^item> the value handed to \<^verbatim>\<open>json.dumps\<close> is a value of type \<open>json\<close>.
\<close>

datatype exn = ValueError | KeyError | IndexError | TypeError | IOError

datatype failure =
    NoDataInCSV                  \<comment> \<open>\<^verbatim>\<open>'No data in CSV file'\<close>\<close>
  | FailedToReadSensorData       \<comment> \<open>\<^verbatim>\<open>'Failed to read sensor data from CSV'\<close>\<close>
  | FailedToProcessImage         \<comment> \<open>\<^verbatim>\<open>'Failed to process image'\<close>\<close>
  | PredictionError exn          \<comment> \<open>\<^verbatim>\<open>'Prediction error: ...'\<close>\<close>
  | SensorPreprocessingError exn \<comment> \<open>\<^verbatim>\<open>'Sensor data preprocessing error: ...'\<close>\<close>
  | ImagePreprocessingError exn  \<comment> \<open>\<^verbatim>\<open>'Image preprocessing error: ...'\<close>\<close>
  | ModelLoadingError            \<comment> \<open>\<^verbatim>\<open>'Model files not found ...'\<close>, \<^verbatim>\<open>'Model loading error: ...'\<close>\<close>

datatype json = JStr string | JNum real | JObj "(string \<times> json) list"

type_synonym dict = "(string \<times> real) list"

text \<open>\<^verbatim>\<open>d[k] = v\<close>: an existing key keeps its position, a new key goes last.\<close>

fun dict_set :: "string \<Rightarrow> 'v \<Rightarrow> (string \<times> 'v) list \<Rightarrow> (string \<times> 'v) list" where
  "dict_set k v [] = [(k, v)]"
| "dict_set k v ((k', v') # d) = (if k' = k then (k, v) # d else (k', v') # dict_set k v d)"

text \<open>\<^verbatim>\<open>d.get(k)\<close>; \<^verbatim>\<open>d[k]\<close> raises \<open>KeyError\<close> where this is \<open>None\<close>.\<close>

definition dict_get :: "(string \<times> 'v) list \<Rightarrow> string \<Rightarrow> 'v option" where
  "dict_get d k = map_of d k"

text \<open>A field of a JSON object (\<open>None\<close> when the key is absent or the value is no object).\<close>

fun field :: "json \<Rightarrow> string \<Rightarrow> json option" where
  "field (JObj kvs) k = map_of kvs k"
| "field _ k = None"

section \<open>The rule-based risk scorer\<close>

text \<open>
  The five threshold blocks are textually the same in \<^verbatim>\<open>assess_risk_from_sensor\<close>
  (predict_sensor_only.py, lines 27-58), \<^verbatim>\<open>assess_risk\<close> (predict_hybrid.py, lines 91-119)
  and \<^verbatim>\<open>assess_risk_from_params\<close> (predict_image_only.py, lines 69-97). Each block adds
  3, 1 or nothing to \<^verbatim>\<open>risk_score\<close>; the amount it adds is given here as a function
  of the parameter's value.
\<close>

definition pH_risk :: "real \<Rightarrow> int" where
  "pH_risk v = (if v < 6.0 \<or> v > 9.0 then 3 else if v < 6.5 \<or> v > 8.5 then 1 else 0)"

definition Temperature_risk :: "real \<Rightarrow> int" where
  "Temperature_risk v = (if v < 10 \<or> v > 35 then 3 else if v < 15 \<or> v > 30 then 1 else 0)"

definition TDS_risk :: "real \<Rightarrow> int" where
  "TDS_risk v = (if v > 1000 then 3 else if v > 500 then 1 else 0)"

definition Turbidity_risk :: "real \<Rightarrow> int" where
  "Turbidity_risk v = (if v > 10 then 3 else if v > 5 then 1 else 0)"

definition DO_risk :: "real \<Rightarrow> int" where
  "DO_risk v = (if v < 3 then 3 else if v < 5 then 1 else 0)"

subsection \<open>predict_sensor_only.py: \<^verbatim>\<open>assess_risk_from_sensor\<close>\<close>

text \<open>
  Lines 25-58: \<^verbatim>\<open>data['pH']\<close> and \<^verbatim>\<open>data['Temperature']\<close> are read unguarded
  (\<open>KeyError\<close> when absent); TDS, Turbidity and DO are scored only when the key is present.
\<close>

definition sensor_risk_score :: "dict \<Rightarrow> exn + int" where
  "sensor_risk_score data =
     (case (dict_get data ''pH'', dict_get data ''Temperature'') of
        (Some ph, Some t) \<Rightarrow>
          Inr (pH_risk ph + Temperature_risk t
               + (case dict_get data ''TDS'' of None \<Rightarrow> 0 | Some v \<Rightarrow> TDS_risk v)
               + (case dict_get data ''Turbidity'' of None \<Rightarrow> 0 | Some v \<Rightarrow> Turbidity_risk v)
               + (case dict_get data ''DO'' of None \<Rightarrow> 0 | Some v \<Rightarrow> DO_risk v))
      | _ \<Rightarrow> Inl KeyError)"

text \<open>Lines 60-74: quality, risk and confidence from the score.\<close>

definition assess_risk_from_sensor :: "dict \<Rightarrow> exn + (string \<times> string \<times> int)" where
  "assess_risk_from_sensor data =
     (case sensor_risk_score data of
        Inl e \<Rightarrow> Inl e
      | Inr risk_score \<Rightarrow>
          Inr (if risk_score \<ge> 6 then (''Unsafe'', ''High'', 92)
               else if risk_score \<ge> 3 then (''Unsafe'', ''Medium'', 88)
               else (''Safe'', ''Low'', 95)))"

subsection \<open>predict_hybrid.py: \<^verbatim>\<open>assess_risk\<close>\<close>

text \<open>Lines 89-122: all five keys are read unguarded, then \<^verbatim>\<open>visual_risk\<close> is added.\<close>

definition hybrid_risk_score :: "dict \<Rightarrow> int \<Rightarrow> exn + int" where
  "hybrid_risk_score sensor_data visual_risk =
     (case (dict_get sensor_data ''pH'', dict_get sensor_data ''Temperature'',
            dict_get sensor_data ''TDS'', dict_get sensor_data ''Turbidity'',
            dict_get sensor_data ''DO'') of
        (Some ph, Some t, Some tds, Some tu, Some d) \<Rightarrow>
          Inr (pH_risk ph + Temperature_risk t + TDS_risk tds + Turbidity_risk tu + DO_risk d
               + visual_risk)
      | _ \<Rightarrow> Inl KeyError)"

text \<open>Lines 124-138.\<close>

definition assess_risk :: "dict \<Rightarrow> int \<Rightarrow> exn + (string \<times> string \<times> int)" where
  "assess_risk sensor_data visual_risk =
     (case hybrid_risk_score sensor_data visual_risk of
        Inl e \<Rightarrow> Inl e
      | Inr risk_score \<Rightarrow>
          Inr (if risk_score \<ge> 6 then (''Unsafe'', ''High'', 95)
               else if risk_score \<ge> 3 then (''Unsafe'', ''Medium'', 92)
               else (''Safe'', ''Low'', 97)))"

subsection \<open>predict_image_only.py: \<^verbatim>\<open>assess_risk_from_params\<close>\<close>

text \<open>Lines 67-97.\<close>

definition params_risk_score :: "dict \<Rightarrow> exn + int" where
  "params_risk_score params =
     (case (dict_get params ''pH'', dict_get params ''Temperature'',
            dict_get params ''TDS'', dict_get params ''Turbidity'',
            dict_get params ''DO'') of
        (Some ph, Some t, Some tds, Some tu, Some d) \<Rightarrow>
          Inr (pH_risk ph + Temperature_risk t + TDS_risk tds + Turbidity_risk tu + DO_risk d)
      | _ \<Rightarrow> Inl KeyError)"

text \<open>Lines 99-110: the third component returned is the score itself.\<close>

definition assess_risk_from_params :: "dict \<Rightarrow> exn + (string \<times> string \<times> int)" where
  "assess_risk_from_params params =
     (case params_risk_score params of
        Inl e \<Rightarrow> Inl e
      | Inr risk_score \<Rightarrow>
          Inr (if risk_score \<ge> 6 then (''Unsafe'', ''High'', risk_score)
               else if risk_score \<ge> 3 then (''Unsafe'', ''Medium'', risk_score)
               else (''Safe'', ''Low'', risk_score)))"

subsection \<open>Canonical readings\<close>

text \<open>
  A canonical reading gives a value to each of the five parameters; \<open>reading\<close> holds them
  in the order pH, Temperature, TDS, Turbidity, DO. A dictionary \<open>carries\<close> a reading when
  each of the five keys maps to the reading's value.
\<close>

type_synonym reading = "real \<times> real \<times> real \<times> real \<times> real"

definition carries :: "dict \<Rightarrow> reading \<Rightarrow> bool" where
  "carries data r =
     (case r of (ph, t, tds, tu, d) \<Rightarrow>
        dict_get data ''pH'' = Some ph \<and> dict_get data ''Temperature'' = Some t \<and>
        dict_get data ''TDS'' = Some tds \<and> dict_get data ''Turbidity'' = Some tu \<and>
        dict_get data ''DO'' = Some d)"

text \<open>The sum of the five threshold contributions of a reading.\<close>

definition reading_score :: "reading \<Rightarrow> int" where
  "reading_score r =
     (case r of (ph, t, tds, tu, d) \<Rightarrow>
        pH_risk ph + Temperature_risk t + TDS_risk tds + Turbidity_risk tu + DO_risk d)"

text \<open>
  The score-to-label rule in the words of the specification: a score of at least 6 is
  (Unsafe, High), a score from 3 up to but excluding 6 is (Unsafe, Medium), a score below 3
  is (Safe, Low).
\<close>

definition spec_labels :: "int \<Rightarrow> string \<times> string" where
  "spec_labels s =
     (if s \<ge> 6 then (''Unsafe'', ''High'')
      else if 3 \<le> s \<and> s < 6 then (''Unsafe'', ''Medium'')
      else (''Safe'', ''Low''))"

text \<open>The two labels of a scorer's result.\<close>

definition labels :: "exn + (string \<times> string \<times> int) \<Rightarrow> (string \<times> string) option" where
  "labels res = (case res of Inl e \<Rightarrow> None | Inr (q, r, c) \<Rightarrow> Some (q, r))"

section \<open>Strings and tables\<close>

text \<open>
  \<^verbatim>\<open>str.lower\<close> on the ASCII letters, \<^verbatim>\<open>str.strip\<close> on the ASCII white space and the
  substring test \<^verbatim>\<open>pat in s\<close>.
\<close>

definition lower_char :: "char \<Rightarrow> char" where
  "lower_char c =
     (case map_of (zip ''ABCDEFGHIJKLMNOPQRSTUVWXYZ'' ''abcdefghijklmnopqrstuvwxyz'') c of
        Some l \<Rightarrow> l
      | None \<Rightarrow> c)"

definition lower :: "string \<Rightarrow> string" where
  "lower s = map lower_char s"

definition is_space :: "char \<Rightarrow> bool" where
  "is_space c = (c \<in> set [CHR '' '', CHR 0x09, CHR 0x0A, CHR 0x0B, CHR 0x0C, CHR 0x0D])"

definition strip :: "string \<Rightarrow> string" where
  "strip s = rev (dropWhile is_space (rev (dropWhile is_space s)))"

fun starts_with :: "string \<Rightarrow> string \<Rightarrow> bool" where
  "starts_with [] s = True"
| "starts_with (p # ps) [] = False"
| "starts_with (p # ps) (c # cs) = (p = c \<and> starts_with ps cs)"

fun contains :: "string \<Rightarrow> string \<Rightarrow> bool" where
  "contains pat [] = (pat = [])"
| "contains pat (c # cs) = (starts_with pat (c # cs) \<or> contains pat cs)"

text \<open>
  A data frame as \<^verbatim>\<open>pd.read_csv\<close> returns it: the column names and the rows, each row
  holding one cell per column. A source that \<^verbatim>\<open>pd.read_csv\<close> cannot read (it raises) is
  \<open>None\<close> of \<open>'a table option\<close>.
\<close>

record 'a table =
  columns :: "string list"
  rows :: "'a list list"

text \<open>
  A cell as the rule-based scripts use it: \<^verbatim>\<open>pd.notna(value)\<close> is false (\<open>NA\<close>), or
  \<^verbatim>\<open>float(value)\<close> returns a number (\<open>Num\<close>), or \<^verbatim>\<open>float(value)\<close> raises
  \<open>ValueError\<close> (\<open>Bad\<close>, text that is no number).
\<close>

datatype cell = Num real | NA | Bad

text \<open>\<^verbatim>\<open>float(value) if pd.notna(value) else default\<close>\<close>

definition float_or :: "cell \<Rightarrow> real \<Rightarrow> exn + real" where
  "float_or v dflt = (case v of NA \<Rightarrow> Inr dflt | Num x \<Rightarrow> Inr x | Bad \<Rightarrow> Inl ValueError)"

text \<open>
  \<^verbatim>\<open>round(x, 2)\<close>: to the nearest multiple of 0.01, a tie to the even one (on the real
  value; the binary representation of the float is not modelled).
\<close>

definition round_half_even :: "real \<Rightarrow> int" where
  "round_half_even x =
     (let f = \<lfloor>x\<rfloor>; d = x - of_int f
      in if d < 1 / 2 then f else if d > 1 / 2 then f + 1 else if even f then f else f + 1)"

definition round2 :: "real \<Rightarrow> real" where
  "round2 x = of_int (round_half_even (x * 100)) / 100"

section \<open>Per-parameter status\<close>

text \<open>
  The \<^verbatim>\<open>'status'\<close> expressions of the \<^verbatim>\<open>'parameters'\<close> block, textually the same in
  predict_sensor_only.py (lines 128-147), predict_hybrid.py (lines 164-183) and
  predict_image_only.py (lines 137-156).
\<close>

definition pH_status :: "real \<Rightarrow> string" where
  "pH_status v = (if 6.5 \<le> v \<and> v \<le> 8.5 then ''Normal'' else ''Abnormal'')"

definition Temperature_status :: "real \<Rightarrow> string" where
  "Temperature_status v = (if 15 \<le> v \<and> v \<le> 30 then ''Normal'' else ''Abnormal'')"

definition TDS_status :: "real \<Rightarrow> string" where
  "TDS_status v = (if v < 500 then ''Normal'' else ''Abnormal'')"

definition DO_status :: "real \<Rightarrow> string" where
  "DO_status v = (if v > 5 then ''Normal'' else ''Abnormal'')"

definition Turbidity_status :: "real \<Rightarrow> string" where
  "Turbidity_status v = (if v < 5 then ''Normal'' else ''Abnormal'')"

text \<open>One entry \<^verbatim>\<open>{'value': ..., 'status': ...}\<close> of the block.\<close>

definition param_entry :: "real \<Rightarrow> string \<Rightarrow> json" where
  "param_entry v st = JObj [(''value'', JNum v), (''status'', JStr st)]"

text \<open>
  The block itself, keys in the order pH, Temperature, TDS, DO, Turbidity, values rounded to
  two places; a missing key raises \<open>KeyError\<close>.
\<close>

definition parameters_block :: "dict \<Rightarrow> exn + json" where
  "parameters_block data =
     (case (dict_get data ''pH'', dict_get data ''Temperature'', dict_get data ''TDS'',
            dict_get data ''DO'', dict_get data ''Turbidity'') of
        (Some ph, Some t, Some tds, Some d, Some tu) \<Rightarrow>
          Inr (JObj [(''pH'', param_entry (round2 ph) (pH_status ph)),
                     (''Temperature'', param_entry (round2 t) (Temperature_status t)),
                     (''TDS'', param_entry (round2 tds) (TDS_status tds)),
                     (''DO'', param_entry (round2 d) (DO_status d)),
                     (''Turbidity'', param_entry (round2 tu) (Turbidity_status tu))])
      | _ \<Rightarrow> Inl KeyError)"

text \<open>\<^verbatim>\<open>'sensor_readings': data\<close>\<close>

definition readings_json :: "dict \<Rightarrow> json" where
  "readings_json data = JObj (map (\<lambda>(k, v). (k, JNum v)) data)"

section \<open>Normalising the latest row (sensor-only and hybrid)\<close>

text \<open>
  One turn of the loop \<^verbatim>\<open>for key, value in latest.items()\<close> (predict_sensor_only.py lines
  91-102, predict_hybrid.py lines 34-45): the first pattern found in the lower-cased,
  stripped column name decides the parameter; a column matching none is skipped.
\<close>

definition standardize_step :: "dict \<Rightarrow> string \<times> cell \<Rightarrow> exn + dict" where
  "standardize_step data kv =
     (case kv of (key, v) \<Rightarrow>
        let key_lower = strip (lower key) in
        if contains ''ph'' key_lower then
          (case float_or v 7.0 of Inl e \<Rightarrow> Inl e | Inr x \<Rightarrow> Inr (dict_set ''pH'' x data))
        else if contains ''temp'' key_lower then
          (case float_or v 25.0 of Inl e \<Rightarrow> Inl e | Inr x \<Rightarrow> Inr (dict_set ''Temperature'' x data))
        else if contains ''tds'' key_lower then
          (case float_or v 300.0 of Inl e \<Rightarrow> Inl e | Inr x \<Rightarrow> Inr (dict_set ''TDS'' x data))
        else if contains ''turbidity'' key_lower then
          (case float_or v 2.0 of Inl e \<Rightarrow> Inl e | Inr x \<Rightarrow> Inr (dict_set ''Turbidity'' x data))
        else if contains ''do'' key_lower \<or> contains ''oxygen'' key_lower then
          (case float_or v 6.0 of Inl e \<Rightarrow> Inl e | Inr x \<Rightarrow> Inr (dict_set ''DO'' x data))
        else Inr data)"

fun standardize :: "dict \<Rightarrow> (string \<times> cell) list \<Rightarrow> exn + dict" where
  "standardize data [] = Inr data"
| "standardize data (kv # kvs) =
     (case standardize_step data kv of Inl e \<Rightarrow> Inl e | Inr data' \<Rightarrow> standardize data' kvs)"

text \<open>\<^verbatim>\<open>if k not in data: data[k] = v\<close>\<close>

definition set_default :: "string \<Rightarrow> real \<Rightarrow> dict \<Rightarrow> dict" where
  "set_default k v data = (if dict_get data k = None then dict_set k v data else data)"

text \<open>The five defaults (predict_sensor_only.py lines 105-114, predict_hybrid.py lines 48-52).\<close>

definition fill_defaults :: "dict \<Rightarrow> dict" where
  "fill_defaults data =
     set_default ''DO'' 6.0
       (set_default ''Turbidity'' 2.0
         (set_default ''TDS'' 300.0
           (set_default ''Temperature'' 25.0
             (set_default ''pH'' 7.0 data))))"

text \<open>
  \<^verbatim>\<open>df.iloc[-1].to_dict().items()\<close>: the cells of the last row under their column names
  (\<^verbatim>\<open>pd.read_csv\<close> makes the column names distinct). Only called on a table with a row.
\<close>

definition latest_items :: "cell table \<Rightarrow> (string \<times> cell) list" where
  "latest_items df = zip (columns df) (last (rows df))"

section \<open>predict_sensor_only.py: \<^verbatim>\<open>predict_from_sensor\<close>\<close>

text \<open>
  Lines 78-156. A failing \<^verbatim>\<open>pd.read_csv\<close> and every other exception end in
  \<^verbatim>\<open>'Prediction error: ...'\<close>; an empty table ends in \<^verbatim>\<open>'No data in CSV file'\<close>.
\<close>

definition predict_from_sensor :: "cell table option \<Rightarrow> failure + json" where
  "predict_from_sensor src =
     (case src of
        None \<Rightarrow> Inl (PredictionError IOError)
      | Some df \<Rightarrow>
          if length (rows df) > 0 then
            (case standardize [] (latest_items df) of
               Inl e \<Rightarrow> Inl (PredictionError e)
             | Inr data0 \<Rightarrow>
                 let data = fill_defaults data0 in
                 (case assess_risk_from_sensor data of
                    Inl e \<Rightarrow> Inl (PredictionError e)
                  | Inr (quality, risk, confidence) \<Rightarrow>
                      (case parameters_block data of
                         Inl e \<Rightarrow> Inl (PredictionError e)
                       | Inr ps \<Rightarrow>
                           Inr (JObj [(''water_quality'', JStr quality),
                                      (''risk_level'', JStr risk),
                                      (''confidence'',
                                         JObj [(''quality'', JNum (of_int confidence)),
                                               (''risk'', JNum (of_int (confidence - 3)))]),
                                      (''sensor_readings'', readings_json data),
                                      (''parameters'', ps),
                                      (''method'', JStr ''sensor_only'')]))))
          else Inl NoDataInCSV)"

section \<open>predict_hybrid.py\<close>

text \<open>
  \<^verbatim>\<open>read_sensor_data\<close>, lines 26-56: \<open>None\<close> for an unreadable or empty table and for
  any exception.
\<close>

definition read_sensor_data :: "cell table option \<Rightarrow> dict option" where
  "read_sensor_data src =
     (case src of
        None \<Rightarrow> None
      | Some df \<Rightarrow>
          if length (rows df) = 0 then None
          else (case standardize [] (latest_items df) of
                  Inl e \<Rightarrow> None
                | Inr data \<Rightarrow> Some (fill_defaults data)))"

text \<open>
  What \<^verbatim>\<open>analyze_image\<close> and \<^verbatim>\<open>analyze_image_features\<close> measure on a decoded image with
  OpenCV: the share of pixels in the green HSV range, the variance of the Laplacian of the
  grey image, and the mean grey level. An image that \<^verbatim>\<open>cv2.imread\<close> cannot decode is
  \<open>None\<close> of \<open>image option\<close>.
\<close>

record image =
  green_ratio :: real
  laplacian_var :: real
  brightness :: real

text \<open>
  \<^verbatim>\<open>analyze_image\<close>, lines 60-85; in \<^verbatim>\<open>predict\<close> an empty image path gives 0 as an
  undecodable image does.
\<close>

definition analyze_image :: "image option \<Rightarrow> int" where
  "analyze_image img =
     (case img of
        None \<Rightarrow> 0
      | Some i \<Rightarrow>
          (if green_ratio i > 0.3 then 2 else if green_ratio i > 0.15 then 1 else 0)
          + (if laplacian_var i < 50 then 2 else if laplacian_var i < 100 then 1 else 0))"

text \<open>\<^verbatim>\<open>predict\<close>, lines 142-192; an empty dictionary is falsy as \<open>None\<close> is.\<close>

definition predict :: "image option \<Rightarrow> cell table option \<Rightarrow> failure + json" where
  "predict img src =
     (case read_sensor_data src of
        None \<Rightarrow> Inl FailedToReadSensorData
      | Some sensor_data \<Rightarrow>
          if sensor_data = [] then Inl FailedToReadSensorData
          else
            let visual_risk = analyze_image img in
            (case assess_risk sensor_data visual_risk of
               Inl e \<Rightarrow> Inl (PredictionError e)
             | Inr (quality, risk, confidence) \<Rightarrow>
                 (case parameters_block sensor_data of
                    Inl e \<Rightarrow> Inl (PredictionError e)
                  | Inr ps \<Rightarrow>
                      Inr (JObj [(''water_quality'', JStr quality),
                                 (''risk_level'', JStr risk),
                                 (''confidence'',
                                    JObj [(''quality'', JNum (of_int confidence)),
                                          (''risk'', JNum (of_int (confidence - 2)))]),
                                 (''sensor_readings'', readings_json sensor_data),
                                 (''parameters'', ps),
                                 (''method'', JStr ''hybrid_sensor_image'')]))))"

section \<open>predict_image_only.py\<close>

text \<open>\<^verbatim>\<open>analyze_image_features\<close>, lines 31-63: the parameters estimated from the image.\<close>

definition analyze_image_features :: "image option \<Rightarrow> dict option" where
  "analyze_image_features img =
     (case img of
        None \<Rightarrow> None
      | Some i \<Rightarrow>
          let turbidity_estimate = max 0 (min 10 ((100 - laplacian_var i) / 10)) in
          Some [(''pH'', 7.0 + (green_ratio i * 2)),
                (''Temperature'', 20 + (brightness i / 10)),
                (''TDS'', 300 + (turbidity_estimate * 30)),
                (''Turbidity'', turbidity_estimate),
                (''DO'', max 3 (8 - (green_ratio i * 5)))])"

text \<open>\<^verbatim>\<open>predict_from_image\<close>, lines 114-165.\<close>

definition predict_from_image :: "image option \<Rightarrow> failure + json" where
  "predict_from_image img =
     (case analyze_image_features img of
        None \<Rightarrow> Inl FailedToProcessImage
      | Some params \<Rightarrow>
          (case assess_risk_from_params params of
             Inl e \<Rightarrow> Inl (PredictionError e)
           | Inr (quality, risk, score) \<Rightarrow>
               let confidence = min 95 (70 + (score * 3)) in
               (case parameters_block params of
                  Inl e \<Rightarrow> Inl (PredictionError e)
                | Inr ps \<Rightarrow>
                    Inr (JObj [(''water_quality'', JStr quality),
                               (''risk_level'', JStr risk),
                               (''confidence'',
                                  JObj [(''quality'', JNum (of_int confidence)),
                                        (''risk'', JNum (of_int (confidence - 5)))]),
                               (''sensor_readings'', readings_json params),
                               (''parameters'', ps),
                               (''method'', JStr ''image_only'')]))))"

section \<open>predict.py: the model path on local artifacts\<close>

text \<open>
  In the two model paths the table is numeric: its cells are finite numbers (missing
  values and text are not modelled there). The fitted scaler, the trained network and the
  label encoder are external; they are parameters, \<open>None\<close> where the call raises.
  The content of \<^verbatim>\<open>feature_columns.json\<close> is a dictionary of lists of column names; the
  training pipeline writes the key \<^verbatim>\<open>'features'\<close>.
\<close>

type_synonym scaler = "real list list \<Rightarrow> real list list option"

type_synonym feature_config = "(string \<times> string list) list"

definition SEQUENCE_LENGTH :: nat where
  "SEQUENCE_LENGTH = 10"

text \<open>\<^verbatim>\<open>column_mapping\<close> (lines 94-100), in the order the loop visits it.\<close>

definition column_mapping :: "(string \<times> string) list" where
  "column_mapping =
     [(''ph'', ''pH''), (''PH'', ''pH''),
      (''temperature'', ''Temperature''), (''temp'', ''Temperature''), (''Temp'', ''Temperature''),
      (''tds'', ''TDS''),
      (''turbidity'', ''Turbidity''),
      (''do'', ''DO''), (''DO'', ''DO''), (''dissolved_oxygen'', ''DO'')]"

text \<open>Lines 102-104: \<^verbatim>\<open>if old_col in df.columns: df = df.rename(columns={old_col: new_col})\<close>\<close>

definition rename_column :: "string \<times> string \<Rightarrow> string list \<Rightarrow> string list" where
  "rename_column m cols =
     (case m of (old_col, new_col) \<Rightarrow>
        if old_col \<in> set cols then map (\<lambda>c. if c = old_col then new_col else c) cols else cols)"

definition standardize_columns :: "string list \<Rightarrow> string list" where
  "standardize_columns cols = fold rename_column column_mapping cols"

text \<open>
  \<^verbatim>\<open>df[names].values\<close> on one row: for each requested name, the cells of the columns of
  that name.
\<close>

definition select_features :: "string list \<Rightarrow> string list \<Rightarrow> 'a list \<Rightarrow> 'a list" where
  "select_features names cols row =
     concat (map (\<lambda>n. map snd (filter (\<lambda>cv. fst cv = n) (zip cols row))) names)"

text \<open>Line 107.\<close>

definition available_features :: "string list \<Rightarrow> string list \<Rightarrow> string list" where
  "available_features features cols = filter (\<lambda>col. col \<in> set cols) features"

text \<open>
  Lines 107-122, the unscaled sequence \<^verbatim>\<open>sensor_data\<close>. \<^verbatim>\<open>np.vstack\<close> raises when the
  two blocks differ in width, which can only happen for a table without rows: the array
  taken from the table then has no row and one column for each column of the table that
  bears a requested name (the selection applied to the header row counts them), and the
  padding has one column for each requested name.
\<close>

definition sensor_sequence :: "real table \<Rightarrow> feature_config \<Rightarrow> exn + real list list" where
  "sensor_sequence df feature_columns =
     (case dict_get feature_columns ''features'' of
        None \<Rightarrow> Inl KeyError
      | Some features \<Rightarrow>
          let avail = available_features features (columns df);
              sensor_data =
                (if avail = [] then [[7.0, 25.0, 300.0, 5.0, 2.0]]
                 else take SEQUENCE_LENGTH (map (select_features avail (columns df)) (rows df)))
          in
          if length sensor_data < SEQUENCE_LENGTH then
            (let last_row = (if length sensor_data > 0 then last sensor_data
                             else replicate (length avail) 0);
                 padding = replicate (SEQUENCE_LENGTH - length sensor_data) last_row
             in if sensor_data = [] \<and>
                   length (select_features avail (columns df) (columns df)) \<noteq> length last_row
                then Inl ValueError
                else Inr (sensor_data @ padding))
          else Inr (take SEQUENCE_LENGTH sensor_data))"

text \<open>\<^verbatim>\<open>row[k]\<close> on a row of the array.\<close>

definition row_item :: "real list \<Rightarrow> nat \<Rightarrow> exn + real" where
  "row_item row k = (if k < length row then Inr (row ! k) else Inl IndexError)"

text \<open>
  Lines 129-135, \<^verbatim>\<open>latest_reading\<close>: the guards compare the number of rows of
  \<^verbatim>\<open>sensor_data\<close>, the index goes into its last row.
\<close>

definition latest_reading :: "real list list \<Rightarrow> exn + dict" where
  "latest_reading sensor_data =
     (let n = length sensor_data in
      case (if n > 0 then row_item (last sensor_data) 0 else Inr 7.0,
            if n > 1 then row_item (last sensor_data) 1 else Inr 25.0,
            if n > 2 then row_item (last sensor_data) 2 else Inr 300.0,
            if n > 3 then row_item (last sensor_data) 3 else Inr 5.0,
            if n > 4 then row_item (last sensor_data) 4 else Inr 2.0) of
        (Inr ph, Inr t, Inr tds, Inr d, Inr tu) \<Rightarrow>
          Inr [(''pH'', ph), (''Temperature'', t), (''TDS'', tds), (''DO'', d), (''Turbidity'', tu)]
      | _ \<Rightarrow> Inl IndexError)"

text \<open>\<^verbatim>\<open>preprocess_sensor_data\<close>, lines 90-141.\<close>

definition preprocess_sensor_data ::
  "real table option \<Rightarrow> scaler \<Rightarrow> feature_config \<Rightarrow> failure + (real list list \<times> dict)" where
  "preprocess_sensor_data src scaler feature_columns =
     (case src of
        None \<Rightarrow> Inl (SensorPreprocessingError IOError)
      | Some df0 \<Rightarrow>
          let df = df0\<lparr>columns := standardize_columns (columns df0)\<rparr> in
          (case sensor_sequence df feature_columns of
             Inl e \<Rightarrow> Inl (SensorPreprocessingError e)
           | Inr sensor_data \<Rightarrow>
               (case scaler sensor_data of
                  None \<Rightarrow> Inl (SensorPreprocessingError ValueError)
                | Some sensor_data_scaled \<Rightarrow>
                    (case latest_reading sensor_data of
                       Inl e \<Rightarrow> Inl (SensorPreprocessingError e)
                     | Inr reading \<Rightarrow> Inr (sensor_data_scaled, reading)))))"

text \<open>\<^verbatim>\<open>np.max\<close> and \<^verbatim>\<open>np.argmax\<close> (the first index of the maximum) of a vector.\<close>

fun np_max :: "real list \<Rightarrow> exn + real" where
  "np_max [] = Inl ValueError"
| "np_max (x # xs) = Inr (fold max xs x)"

definition np_argmax :: "real list \<Rightarrow> exn + nat" where
  "np_argmax xs =
     (case np_max xs of Inl e \<Rightarrow> Inl e | Inr m \<Rightarrow> Inr (length (takeWhile (\<lambda>x. x \<noteq> m) xs)))"

text \<open>\<^verbatim>\<open>labels[k] if k < len(labels) else 'Unknown'\<close>\<close>

definition label_or_unknown :: "string list \<Rightarrow> nat \<Rightarrow> string" where
  "label_or_unknown ls k = (if k < length ls then ls ! k else ''Unknown'')"

text \<open>\<^verbatim>\<open>d.get(k, dflt)\<close>\<close>

definition get_or :: "dict \<Rightarrow> string \<Rightarrow> real \<Rightarrow> real" where
  "get_or d k dflt = (case dict_get d k of None \<Rightarrow> dflt | Some v \<Rightarrow> v)"

text \<open>
  \<^verbatim>\<open>make_prediction\<close>, lines 145-217. \<open>artifacts\<close> is the outcome of
  \<^verbatim>\<open>load_model_and_preprocessors\<close>, \<open>image_input\<close> that of \<^verbatim>\<open>preprocess_image\<close>, and
  \<open>model_predict\<close> the network, giving the two probability vectors of the one sample.
  The result has no \<^verbatim>\<open>'method'\<close> key.
\<close>

definition make_prediction ::
  "(scaler \<times> feature_config) option \<Rightarrow> 'i option \<Rightarrow> real table option \<Rightarrow>
   ('i \<Rightarrow> real list list \<Rightarrow> (real list \<times> real list) option) \<Rightarrow> failure + json" where
  "make_prediction artifacts image_input src model_predict =
     (case artifacts of
        None \<Rightarrow> Inl ModelLoadingError
      | Some (scaler, feature_config) \<Rightarrow>
          (case image_input of
             None \<Rightarrow> Inl (ImagePreprocessingError IOError)
           | Some img \<Rightarrow>
               (case preprocess_sensor_data src scaler feature_config of
                  Inl f \<Rightarrow> Inl f
                | Inr (sensor_input, sensor_readings) \<Rightarrow>
                    (case model_predict img sensor_input of
                       None \<Rightarrow> Inl (PredictionError ValueError)
                     | Some (quality_pred, risk_pred) \<Rightarrow>
                         (case (np_argmax quality_pred, np_argmax risk_pred,
                                np_max quality_pred, np_max risk_pred) of
                            (Inr quality_class, Inr risk_class,
                             Inr quality_confidence, Inr risk_confidence) \<Rightarrow>
                              Inr (JObj
                                [(''water_quality'',
                                    JStr (label_or_unknown [''Unsafe'', ''Safe''] quality_class)),
                                 (''risk_level'',
                                    JStr (label_or_unknown [''Low'', ''Medium'', ''High''] risk_class)),
                                 (''confidence'',
                                    JObj [(''quality'', JNum (round2 (quality_confidence * 100))),
                                          (''risk'', JNum (round2 (risk_confidence * 100)))]),
                                 (''sensor_readings'', readings_json sensor_readings),
                                 (''parameters'',
                                    JObj [(''pH'', param_entry (get_or sensor_readings ''pH'' 0)
                                             (pH_status (get_or sensor_readings ''pH'' 0))),
                                          (''Temperature'',
                                             param_entry (get_or sensor_readings ''Temperature'' 0)
                                             (Temperature_status (get_or sensor_readings ''Temperature'' 0))),
                                          (''TDS'', param_entry (get_or sensor_readings ''TDS'' 0)
                                             (TDS_status (get_or sensor_readings ''TDS'' 0))),
                                          (''DO'', param_entry (get_or sensor_readings ''DO'' 0)
                                             (DO_status (get_or sensor_readings ''DO'' 0))),
                                          (''Turbidity'',
                                             param_entry (get_or sensor_readings ''Turbidity'' 0)
                                             (Turbidity_status (get_or sensor_readings ''Turbidity'' 0)))])])
                          | _ \<Rightarrow> Inl (PredictionError ValueError))))))"

section \<open>predict_s3.py: the model path on artifacts cached from object storage\<close>

subsection \<open>\<^verbatim>\<open>preprocess_sensor_data\<close> of predict_s3.py\<close>

text \<open>
  This script keeps the cells of the last row as pandas holds them: a cell of a
  floating-point column is a \<^verbatim>\<open>numpy.float64\<close>, a cell of an integer column a
  \<^verbatim>\<open>numpy.int64\<close>. Both compare and round as numbers; \<^verbatim>\<open>json.dumps\<close> writes the
  first (a subclass of \<^verbatim>\<open>float\<close>) and raises \<open>TypeError\<close> on the second.
\<close>

datatype npnum = NpFloat real | NpInt int

definition np_value :: "npnum \<Rightarrow> real" where
  "np_value v = (case v of NpFloat x \<Rightarrow> x | NpInt n \<Rightarrow> of_int n)"

definition json_serializable :: "npnum \<Rightarrow> bool" where
  "json_serializable v = (case v of NpFloat x \<Rightarrow> True | NpInt n \<Rightarrow> False)"

type_synonym np_dict = "(string \<times> npnum) list"

text \<open>\<^verbatim>\<open>d.get(k, dflt)\<close> as a number.\<close>

definition get_np_or :: "np_dict \<Rightarrow> string \<Rightarrow> real \<Rightarrow> real" where
  "get_np_or d k dflt = (case dict_get d k of None \<Rightarrow> dflt | Some v \<Rightarrow> np_value v)"

text \<open>\<^verbatim>\<open>'sensor_readings': sensor_readings\<close>, once it can be written.\<close>

definition np_readings_json :: "np_dict \<Rightarrow> json" where
  "np_readings_json data = JObj (map (\<lambda>(k, v). (k, JNum (np_value v))) data)"

text \<open>The \<^verbatim>\<open>if\<close>/\<^verbatim>\<open>elif\<close> chain of lines 118-122 on the lower-cased, stripped column name.\<close>

definition canonical_name :: "string \<Rightarrow> string option" where
  "canonical_name col_lower =
     (if contains ''ph'' col_lower then Some ''pH''
      else if contains ''temp'' col_lower then Some ''Temperature''
      else if contains ''tds'' col_lower then Some ''TDS''
      else if contains ''turbidity'' col_lower then Some ''Turbidity''
      else if contains ''do'' col_lower \<or> contains ''oxygen'' col_lower then Some ''DO''
      else None)"

text \<open>\<^verbatim>\<open>df[col].iloc[-1]\<close>: \<open>IndexError\<close> on a table without rows.\<close>

definition last_cell :: "npnum table \<Rightarrow> string \<Rightarrow> exn + npnum" where
  "last_cell df col =
     (if rows df = [] then Inl IndexError
      else (case map_of (zip (columns df) (last (rows df))) col of
              None \<Rightarrow> Inl KeyError
            | Some v \<Rightarrow> Inr v))"

text \<open>The loop of lines 116-122 over the remaining columns.\<close>

fun standardize_s3 :: "npnum table \<Rightarrow> np_dict \<Rightarrow> string list \<Rightarrow> exn + np_dict" where
  "standardize_s3 df data [] = Inr data"
| "standardize_s3 df data (col # cols) =
     (case canonical_name (strip (lower col)) of
        None \<Rightarrow> standardize_s3 df data cols
      | Some k \<Rightarrow>
          (case last_cell df col of
             Inl e \<Rightarrow> Inl e
           | Inr v \<Rightarrow> standardize_s3 df (dict_set k v data) cols))"

text \<open>
  Line 125: the list under the key \<^verbatim>\<open>'columns'\<close> of the feature configuration, or the
  fixed list when there is no such key.
\<close>

definition s3_feature_order :: "feature_config \<Rightarrow> string list" where
  "s3_feature_order feature_config =
     (case dict_get feature_config ''columns'' of
        None \<Rightarrow> [''pH'', ''Temperature'', ''TDS'', ''Turbidity'', ''DO'']
      | Some cols \<Rightarrow> cols)"

text \<open>
  Lines 112-135. The one scaled row is repeated \<^verbatim>\<open>SEQUENCE_LENGTH\<close> times
  (\<^verbatim>\<open>np.repeat(..., axis=0)\<close>). An exception leaves the function.
\<close>

definition preprocess_sensor_data_s3 ::
  "npnum table option \<Rightarrow> scaler \<Rightarrow> feature_config \<Rightarrow> exn + (real list list \<times> np_dict)" where
  "preprocess_sensor_data_s3 src scaler feature_config =
     (case src of
        None \<Rightarrow> Inl IOError
      | Some df \<Rightarrow>
          (case standardize_s3 df [] (columns df) of
             Inl e \<Rightarrow> Inl e
           | Inr data \<Rightarrow>
               let features = map (\<lambda>col. get_np_or data col 0) (s3_feature_order feature_config) in
               (case scaler [features] of
                  None \<Rightarrow> Inl ValueError
                | Some sensor_scaled \<Rightarrow>
                    Inr (concat (map (replicate SEQUENCE_LENGTH) sensor_scaled), data))))"

subsection \<open>\<^verbatim>\<open>make_prediction\<close> of predict_s3.py\<close>

text \<open>
  Lines 177-229. \<open>loaded\<close> is the outcome of \<^verbatim>\<open>load_model_from_s3\<close> (the scaler, the
  label encoder's \<^verbatim>\<open>inverse_transform\<close> on one class index, the feature configuration),
  \<open>now_id\<close> and \<open>now_iso\<close> are the two time stamps, and \<open>upload\<close> is
  \<^verbatim>\<open>upload_prediction_to_s3\<close>, which returns the key it stored the result under or
  \<open>None\<close>; a returned key is never the empty string. Rounding leaves an integer cell
  as it is. When a reading is a \<^verbatim>\<open>numpy.int64\<close>, \<^verbatim>\<open>json.dumps\<close> raises \<open>TypeError\<close>:
  inside the upload, which catches it and returns \<open>None\<close>, and again at line 225,
  where it ends the script in \<^verbatim>\<open>'Prediction error: ...'\<close>.
\<close>

definition make_prediction_s3 ::
  "(scaler \<times> (nat \<Rightarrow> string option) \<times> feature_config) option \<Rightarrow> 'i option \<Rightarrow>
   npnum table option \<Rightarrow> ('i \<Rightarrow> real list list \<Rightarrow> (real list \<times> real list) option) \<Rightarrow>
   string \<Rightarrow> string \<Rightarrow> (json \<Rightarrow> string option) \<Rightarrow> failure + json" where
  "make_prediction_s3 loaded image_input src model_predict now_id now_iso upload =
     (case loaded of
        None \<Rightarrow> Inl (PredictionError IOError)
      | Some (scaler, inverse_transform, feature_config) \<Rightarrow>
          (case image_input of
             None \<Rightarrow> Inl (PredictionError IOError)
           | Some img \<Rightarrow>
               (case preprocess_sensor_data_s3 src scaler feature_config of
                  Inl e \<Rightarrow> Inl (PredictionError e)
                | Inr (sensor_input, sensor_readings) \<Rightarrow>
                    (case model_predict img sensor_input of
                       None \<Rightarrow> Inl (PredictionError ValueError)
                     | Some (quality_pred, risk_pred) \<Rightarrow>
                         (case (np_argmax quality_pred, np_argmax risk_pred,
                                np_max quality_pred, np_max risk_pred) of
                            (Inr qi, Inr ri, Inr quality_max, Inr risk_max) \<Rightarrow>
                              (case (inverse_transform qi, inverse_transform ri) of
                                 (Some quality_class, Some risk_class) \<Rightarrow>
                                   let result =
                                     [(''id'', JStr now_id),
                                      (''timestamp'', JStr now_iso),
                                      (''water_quality'', JStr quality_class),
                                      (''risk_level'', JStr risk_class),
                                      (''confidence'',
                                         JObj [(''quality'', JNum (quality_max * 100)),
                                               (''risk'', JNum (risk_max * 100))]),
                                      (''sensor_readings'', np_readings_json sensor_readings),
                                      (''parameters'',
                                         JObj [(''pH'',
                                                  param_entry (round2 (get_np_or sensor_readings ''pH'' 0))
                                                  (pH_status (get_np_or sensor_readings ''pH'' 7))),
                                               (''Temperature'',
                                                  param_entry (round2 (get_np_or sensor_readings ''Temperature'' 0))
                                                  (Temperature_status (get_np_or sensor_readings ''Temperature'' 25))),
                                               (''TDS'',
                                                  param_entry (round2 (get_np_or sensor_readings ''TDS'' 0))
                                                  (TDS_status (get_np_or sensor_readings ''TDS'' 0))),
                                               (''DO'',
                                                  param_entry (round2 (get_np_or sensor_readings ''DO'' 0))
                                                  (DO_status (get_np_or sensor_readings ''DO'' 0))),
                                               (''Turbidity'',
                                                  param_entry (round2 (get_np_or sensor_readings ''Turbidity'' 0))
                                                  (Turbidity_status (get_np_or sensor_readings ''Turbidity'' 0)))]),
                                      (''method'', JStr ''hybrid_s3_model'')]
                                   in if list_ex (\<lambda>kv. \<not> json_serializable (snd kv)) sensor_readings
                                      then Inl (PredictionError TypeError)
                                      else (case upload (JObj result) of
                                              None \<Rightarrow> Inr (JObj result)
                                            | Some s3_key \<Rightarrow>
                                                Inr (JObj (dict_set ''s3_key'' (JStr s3_key) result)))
                               | _ \<Rightarrow> Inl (PredictionError ValueError))
                          | _ \<Rightarrow> Inl (PredictionError ValueError))))))"

section \<open>Selection by name, for comparison\<close>

text \<open>
  What it means to build the sequence by name in a given order, written independently of
  the code: \<open>named_cell\<close> is the cell of a row that stands under a column name (nothing
  when there is no such column), \<open>by_name\<close> lists the cells under the given names in the
  order of the names, and \<open>by_name_sequence\<close> does so for every row and repeats the last
  row up to the sequence length. None of them looks at the order of the columns.
\<close>

definition named_cell :: "string list \<Rightarrow> 'a list \<Rightarrow> string \<Rightarrow> 'a list" where
  "named_cell cols row n = (case map_of (zip cols row) n of None \<Rightarrow> [] | Some v \<Rightarrow> [v])"

definition by_name :: "string list \<Rightarrow> string list \<Rightarrow> 'a list \<Rightarrow> 'a list" where
  "by_name names cols row = concat (map (named_cell cols row) names)"



section \<open>Reading a script's output\<close>

text \<open>
  A script's output is a failure or the result object; these read the result.
  \<open>succeeded\<close> says of any function of the model that it returned normally.
\<close>

definition succeeded :: "'e + 'a \<Rightarrow> bool" where
  "succeeded out = (case out of Inl f \<Rightarrow> False | Inr res \<Rightarrow> True)"

definition result_field :: "failure + json \<Rightarrow> string \<Rightarrow> json option" where
  "result_field out k = (case out of Inl f \<Rightarrow> None | Inr res \<Rightarrow> field res k)"

text \<open>\<^verbatim>\<open>result['sensor_readings'][p]\<close>\<close>

definition result_reading :: "failure + json \<Rightarrow> string \<Rightarrow> json option" where
  "result_reading out p =
     (case result_field out ''sensor_readings'' of None \<Rightarrow> None | Some rs \<Rightarrow> field rs p)"

text \<open>\<^verbatim>\<open>result['parameters'][p]['status']\<close>\<close>

definition result_status :: "failure + json \<Rightarrow> string \<Rightarrow> json option" where
  "result_status out p =
     (case result_field out ''parameters'' of
        None \<Rightarrow> None
      | Some ps \<Rightarrow> (case field ps p of None \<Rightarrow> None | Some e \<Rightarrow> field e ''status''))"

text \<open>
  The values the specification allows for the \<^verbatim>\<open>"method"\<close> field of the result, and
  whether an output carries one of them.
\<close>

definition spec_methods :: "string list" where
  "spec_methods = [''sensor_only'', ''image_only'', ''hybrid'', ''fusion_model'']"

definition method_in_spec :: "failure + json \<Rightarrow> bool" where
  "method_in_spec out =
     (result_field out ''method'' \<in> set (map (\<lambda>m. Some (JStr m)) spec_methods))"

section \<open>Sample inputs\<close>

text \<open>A one-row sensor file with every parameter in range.\<close>

definition sample_table :: "cell table" where
  "sample_table =
     \<lparr>columns = [''pH'', ''Temperature'', ''TDS'', ''Turbidity'', ''DO''],
      rows = [[Num 7.1, Num 24, Num 280, Num 1.5, Num 6.2]]\<rparr>"

text \<open>A one-row sensor file with TDS, Turbidity and DO exactly on their thresholds.\<close>

definition boundary_table :: "cell table" where
  "boundary_table =
     \<lparr>columns = [''pH'', ''Temperature'', ''TDS'', ''Turbidity'', ''DO''],
      rows = [[Num 7, Num 25, Num 500, Num 5, Num 5]]\<rparr>"

text \<open>The same reading as \<open>sample_table\<close> for the model paths, columns in training order.\<close>

definition sample_numeric_table :: "real table" where
  "sample_numeric_table =
     \<lparr>columns = [''pH'', ''Temperature'', ''TDS'', ''DO'', ''Turbidity''],
      rows = [[7.1, 24, 280, 6.2, 1.5]]\<rparr>"

text \<open>The same file as predict_s3.py holds it, every column of floating-point type.\<close>

definition sample_s3_table :: "npnum table" where
  "sample_s3_table =
     \<lparr>columns = [''pH'', ''Temperature'', ''TDS'', ''DO'', ''Turbidity''],
      rows = [[NpFloat 7.1, NpFloat 24, NpFloat 280, NpFloat 6.2, NpFloat 1.5]]\<rparr>"

text \<open>What the training pipeline writes to \<^verbatim>\<open>feature_columns.json\<close> for such a file.\<close>

definition trained_feature_config :: feature_config where
  "trained_feature_config = [(''features'', [''pH'', ''Temperature'', ''TDS'', ''DO'', ''Turbidity''])]"



definition unrelated_table :: "real table" where
  "unrelated_table = \<lparr>columns = [''station'', ''depth''], rows = [[3, 1.5]]\<rparr>"

text \<open>Sensor files that lack columns: a numeric one with two columns, one with pH only.\<close>

definition two_column_table :: "real table" where
  "two_column_table = \<lparr>columns = [''pH'', ''Temperature''], rows = [[7.2, 24]]\<rparr>"

definition ph_only_table :: "cell table" where
  "ph_only_table = \<lparr>columns = [''pH''], rows = [[Num 7.2]]\<rparr>"


text \<open>A network that answers with fixed probabilities, and a scaler that changes nothing.\<close>

definition fixed_model :: "unit \<Rightarrow> real list list \<Rightarrow> (real list \<times> real list) option" where
  "fixed_model img x = Some ([0.2, 0.8], [0.7, 0.2, 0.1])"

definition identity_scaler :: scaler where
  "identity_scaler x = Some x"

definition fixed_encoder :: "nat \<Rightarrow> string option" where
  "fixed_encoder k = Some (if k = 0 then ''Safe'' else ''Unsafe'')"

definition fixed_upload :: "json \<Rightarrow> string option" where
  "fixed_upload j = Some ''predictions/20260101_000000_20260101000000.json''"

text \<open>A three-row sensor file whose last row is the row of \<open>sample_table\<close>.\<close>

definition history_table :: "cell table" where
  "history_table =
     \<lparr>columns = [''pH'', ''Temperature'', ''TDS'', ''Turbidity'', ''DO''],
      rows = [[Num 9.5, Num 33, Num 1200, Num 12, Num 2],
              [NA, Bad, Num 0, Num 0, Num 0],
              [Num 7.1, Num 24, Num 280, Num 1.5, Num 6.2]]\<rparr>"

text \<open>An image 40 percent green with no sharpness at all, of low brightness.\<close>

definition murky_green_image :: image where
  "murky_green_image = \<lparr>green_ratio = 0.4, laplacian_var = 0, brightness = 50\<rparr>"

text \<open>An image 70 percent green, less blurred.\<close>

definition hazy_green_image :: image where
  "hazy_green_image = \<lparr>green_ratio = 0.7, laplacian_var = 40, brightness = 50\<rparr>"

text \<open>An image 80 percent green, blurred.\<close>

definition algae_image :: image where
  "algae_image = \<lparr>green_ratio = 0.8, laplacian_var = 20, brightness = 50\<rparr>"

section \<open>Properties of the risk scorer\<close>

lemmas risk_defs = pH_risk_def Temperature_risk_def TDS_risk_def Turbidity_risk_def DO_risk_def

lemmas status_defs =
  pH_status_def Temperature_status_def TDS_status_def DO_status_def Turbidity_status_def

lemmas string_defs = lower_def lower_char_def strip_def is_space_def

lemma carries_sensor_score:
  "carries data r \<Longrightarrow> sensor_risk_score data = Inr (reading_score r)"
  by (cases r) (simp add: carries_def sensor_risk_score_def reading_score_def)

lemma carries_hybrid_score:
  "carries data r \<Longrightarrow> hybrid_risk_score data v = Inr (reading_score r + v)"
  by (cases r) (simp add: carries_def hybrid_risk_score_def reading_score_def)

lemma carries_params_score:
  "carries data r \<Longrightarrow> params_risk_score data = Inr (reading_score r)"
  by (cases r) (simp add: carries_def params_risk_score_def reading_score_def)

lemma labels_sensor:
  "sensor_risk_score data = Inr s \<Longrightarrow> labels (assess_risk_from_sensor data) = Some (spec_labels s)"
  by (simp add: assess_risk_from_sensor_def labels_def spec_labels_def)

lemma labels_hybrid:
  "hybrid_risk_score data v = Inr s \<Longrightarrow> labels (assess_risk data v) = Some (spec_labels s)"
  by (simp add: assess_risk_def labels_def spec_labels_def)

lemma labels_params:
  "params_risk_score data = Inr s \<Longrightarrow> labels (assess_risk_from_params data) = Some (spec_labels s)"
  by (simp add: assess_risk_from_params_def labels_def spec_labels_def)

text \<open>
  Claim C1. For every canonical reading and every visual increment, the three rule-based
  scorers (sensor-only, hybrid, image-only) turn the accumulated risk score into the labels
  by one and the same rule: at least 6 gives (Unsafe, High), 3 to 5 gives (Unsafe, Medium),
  below 3 gives (Safe, Low). The sensor-only and image-only scores are the sum of the five
  threshold contributions, the hybrid score is that sum plus the visual increment.
\<close>

theorem score_to_label_rule_shared:
  assumes "carries data r"
  shows "sensor_risk_score data = Inr (reading_score r)
       \<and> labels (assess_risk_from_sensor data) = Some (spec_labels (reading_score r))
       \<and> hybrid_risk_score data visual_risk = Inr (reading_score r + visual_risk)
       \<and> labels (assess_risk data visual_risk) = Some (spec_labels (reading_score r + visual_risk))
       \<and> params_risk_score data = Inr (reading_score r)
       \<and> labels (assess_risk_from_params data) = Some (spec_labels (reading_score r))"
  using assms
  by (simp add: carries_sensor_score carries_hybrid_score carries_params_score
        labels_sensor labels_hybrid labels_params)

theorem score_to_label_rule_shared_witness:
  "carries [(''pH'', 9.5), (''Temperature'', 33), (''TDS'', 1200), (''Turbidity'', 12), (''DO'', 2)]
           (9.5, 33, 1200, 12, 2)
   \<and> labels (assess_risk_from_sensor
         [(''pH'', 9.5), (''Temperature'', 33), (''TDS'', 1200), (''Turbidity'', 12), (''DO'', 2)])
       = Some (''Unsafe'', ''High'')
   \<and> labels (assess_risk
         [(''pH'', 9.5), (''Temperature'', 33), (''TDS'', 1200), (''Turbidity'', 12), (''DO'', 2)] 4)
       = Some (''Unsafe'', ''High'')
   \<and> labels (assess_risk_from_params
         [(''pH'', 9.5), (''Temperature'', 33), (''TDS'', 1200), (''Turbidity'', 12), (''DO'', 2)])
       = Some (''Unsafe'', ''High'')"
proof -
  have c: "carries [(''pH'', 9.5), (''Temperature'', 33), (''TDS'', 1200), (''Turbidity'', 12), (''DO'', 2)]
           (9.5, 33, 1200, 12, 2)"
    by (simp add: carries_def dict_get_def)
  show ?thesis
    using c score_to_label_rule_shared [OF c, of 4]
    by (simp add: spec_labels_def reading_score_def risk_defs)
qed

text \<open>
  Claim C3. For every canonical reading with pH in [6.5, 8.5], Temperature in [15, 30],
  TDS below 500, Turbidity below 5 and DO above 5, and no visual increment (the increment of
  a missing image is 0), the risk score is 0 and the result is quality Safe with risk Low,
  in the sensor-only scorer and in the hybrid scorer.
\<close>

theorem in_range_reading_is_safe:
  assumes "carries data (ph, t, tds, tu, d)"
    and "6.5 \<le> ph" "ph \<le> 8.5" "15 \<le> t" "t \<le> 30" "tds < 500" "tu < 5" "d > 5"
  shows "sensor_risk_score data = Inr 0
       \<and> assess_risk_from_sensor data = Inr (''Safe'', ''Low'', 95)
       \<and> analyze_image None = 0
       \<and> hybrid_risk_score data 0 = Inr 0
       \<and> assess_risk data 0 = Inr (''Safe'', ''Low'', 97)"
proof -
  have "reading_score (ph, t, tds, tu, d) = 0"
    using assms(2-) by (simp add: reading_score_def risk_defs)
  then show ?thesis
    using carries_sensor_score [OF assms(1)] carries_hybrid_score [OF assms(1), of 0]
    by (simp add: assess_risk_from_sensor_def assess_risk_def analyze_image_def)
qed

theorem in_range_reading_is_safe_witness:
  "carries [(''pH'', 7.1), (''Temperature'', 24), (''TDS'', 280), (''Turbidity'', 1.5), (''DO'', 6.2)]
           (7.1, 24, 280, 1.5, 6.2)
   \<and> assess_risk_from_sensor
        [(''pH'', 7.1), (''Temperature'', 24), (''TDS'', 280), (''Turbidity'', 1.5), (''DO'', 6.2)]
      = Inr (''Safe'', ''Low'', 95)
   \<and> assess_risk
        [(''pH'', 7.1), (''Temperature'', 24), (''TDS'', 280), (''Turbidity'', 1.5), (''DO'', 6.2)] 0
      = Inr (''Safe'', ''Low'', 97)"
proof -
  have c: "carries [(''pH'', 7.1), (''Temperature'', 24), (''TDS'', 280), (''Turbidity'', 1.5), (''DO'', 6.2)]
           (7.1, 24, 280, 1.5, 6.2)"
    by (simp add: carries_def dict_get_def)
  show ?thesis
    using c in_range_reading_is_safe [OF c] by simp
qed

section \<open>Per-parameter status against the score\<close>

lemma dict_get_set: "dict_get (dict_set k v d) k' = (if k' = k then Some v else dict_get d k')"
  by (induction d) (auto simp: dict_get_def)

lemma dict_get_set_default:
  "dict_get (set_default k v d) k' =
     (if k' = k then Some (case dict_get d k of None \<Rightarrow> v | Some x \<Rightarrow> x) else dict_get d k')"
  by (auto simp: set_default_def dict_get_set split: option.splits)

text \<open>
  After the defaults are filled in, the dictionary carries a reading: a parameter found
  in the row keeps its value, an absent one has its default.
\<close>

lemma fill_defaults_carries:
  "carries (fill_defaults d)
     (case dict_get d ''pH'' of None \<Rightarrow> 7 | Some x \<Rightarrow> x,
      case dict_get d ''Temperature'' of None \<Rightarrow> 25 | Some x \<Rightarrow> x,
      case dict_get d ''TDS'' of None \<Rightarrow> 300 | Some x \<Rightarrow> x,
      case dict_get d ''Turbidity'' of None \<Rightarrow> 2 | Some x \<Rightarrow> x,
      case dict_get d ''DO'' of None \<Rightarrow> 6 | Some x \<Rightarrow> x)"
  by (simp add: carries_def fill_defaults_def dict_get_set_default split: option.splits)

text \<open>
  Claim C4, as stated, fails: on a row with TDS 500, Turbidity 5 and DO 5 the sensor-only
  result reports the three parameters as Abnormal, none of them adds to the risk score,
  and the result is Safe.
\<close>

theorem status_vs_contribution_counterexample:
  "result_status (predict_from_sensor (Some boundary_table)) ''TDS'' = Some (JStr ''Abnormal'')
   \<and> result_status (predict_from_sensor (Some boundary_table)) ''Turbidity'' = Some (JStr ''Abnormal'')
   \<and> result_status (predict_from_sensor (Some boundary_table)) ''DO'' = Some (JStr ''Abnormal'')
   \<and> TDS_risk 500 = 0 \<and> Turbidity_risk 5 = 0 \<and> DO_risk 5 = 0
   \<and> sensor_risk_score
        [(''pH'', 7), (''Temperature'', 25), (''TDS'', 500), (''Turbidity'', 5), (''DO'', 5)] = Inr 0
   \<and> result_field (predict_from_sensor (Some boundary_table)) ''water_quality'' = Some (JStr ''Safe'')"
  by (simp add: predict_from_sensor_def boundary_table_def latest_items_def standardize_step_def
      string_defs float_or_def fill_defaults_def set_default_def dict_get_def
      assess_risk_from_sensor_def sensor_risk_score_def risk_defs parameters_block_def
      status_defs param_entry_def result_status_def result_field_def)

text \<open>
  Claim C4, amended. For every canonical reading the parameters block reports the five
  statuses below, and the score is the sum of the five contributions. pH and Temperature
  are Abnormal exactly when they add to the score. TDS, Turbidity and DO are Abnormal
  exactly when they add to the score or lie on their threshold (500, 5 and 5): on the
  threshold the status is Abnormal and the contribution is 0.
\<close>

theorem status_vs_contribution:
  assumes "carries data (ph, t, tds, tu, d)"
  shows "parameters_block data =
           Inr (JObj [(''pH'', param_entry (round2 ph) (pH_status ph)),
                      (''Temperature'', param_entry (round2 t) (Temperature_status t)),
                      (''TDS'', param_entry (round2 tds) (TDS_status tds)),
                      (''DO'', param_entry (round2 d) (DO_status d)),
                      (''Turbidity'', param_entry (round2 tu) (Turbidity_status tu))])
       \<and> sensor_risk_score data =
           Inr (pH_risk ph + Temperature_risk t + TDS_risk tds + Turbidity_risk tu + DO_risk d)
       \<and> (pH_status ph = ''Abnormal'') = (pH_risk ph > 0)
       \<and> (Temperature_status t = ''Abnormal'') = (Temperature_risk t > 0)
       \<and> (TDS_status tds = ''Abnormal'') = (TDS_risk tds > 0 \<or> tds = 500)
       \<and> (Turbidity_status tu = ''Abnormal'') = (Turbidity_risk tu > 0 \<or> tu = 5)
       \<and> (DO_status d = ''Abnormal'') = (DO_risk d > 0 \<or> d = 5)"
proof -
  have "parameters_block data =
           Inr (JObj [(''pH'', param_entry (round2 ph) (pH_status ph)),
                      (''Temperature'', param_entry (round2 t) (Temperature_status t)),
                      (''TDS'', param_entry (round2 tds) (TDS_status tds)),
                      (''DO'', param_entry (round2 d) (DO_status d)),
                      (''Turbidity'', param_entry (round2 tu) (Turbidity_status tu))])"
    using assms by (simp add: carries_def parameters_block_def)
  moreover have "sensor_risk_score data =
           Inr (pH_risk ph + Temperature_risk t + TDS_risk tds + Turbidity_risk tu + DO_risk d)"
    using carries_sensor_score [OF assms] by (simp add: reading_score_def)
  moreover have "(pH_status ph = ''Abnormal'') = (pH_risk ph > 0)"
    by (auto simp: pH_status_def pH_risk_def)
  moreover have "(Temperature_status t = ''Abnormal'') = (Temperature_risk t > 0)"
    by (auto simp: Temperature_status_def Temperature_risk_def)
  moreover have "(TDS_status tds = ''Abnormal'') = (TDS_risk tds > 0 \<or> tds = 500)"
    by (auto simp: TDS_status_def TDS_risk_def)
  moreover have "(Turbidity_status tu = ''Abnormal'') = (Turbidity_risk tu > 0 \<or> tu = 5)"
    by (auto simp: Turbidity_status_def Turbidity_risk_def)
  moreover have "(DO_status d = ''Abnormal'') = (DO_risk d > 0 \<or> d = 5)"
    by (auto simp: DO_status_def DO_risk_def)
  ultimately show ?thesis by simp
qed

theorem status_vs_contribution_witness:
  "carries [(''pH'', 9.5), (''Temperature'', 25), (''TDS'', 500), (''Turbidity'', 5), (''DO'', 2)]
           (9.5, 25, 500, 5, 2)
   \<and> sensor_risk_score
        [(''pH'', 9.5), (''Temperature'', 25), (''TDS'', 500), (''Turbidity'', 5), (''DO'', 2)]
      = Inr (pH_risk 9.5 + Temperature_risk 25 + TDS_risk 500 + Turbidity_risk 5 + DO_risk 2)
   \<and> (pH_status 9.5 = ''Abnormal'') = (pH_risk 9.5 > 0)
   \<and> (TDS_status 500 = ''Abnormal'') = (TDS_risk 500 > 0 \<or> (500::real) = 500)"
proof -
  have c: "carries [(''pH'', 9.5), (''Temperature'', 25), (''TDS'', 500), (''Turbidity'', 5), (''DO'', 2)]
           (9.5, 25, 500, 5, 2)"
    by (simp add: carries_def dict_get_def)
  show ?thesis
    using c status_vs_contribution [OF c] by simp
qed

section \<open>The image-only path\<close>

text \<open>
  Claim C9, as stated, fails: an image with green ratio 0.4 (above 0.3) and Laplacian
  variance 0 (the lowest clarity there is) gets the estimated DO 6, not below 5, and the
  image-only prediction is Safe.
\<close>

theorem green_low_clarity_counterexample:
  "green_ratio murky_green_image > 0.3 \<and> laplacian_var murky_green_image < 50
   \<and> result_field (predict_from_image (Some murky_green_image)) ''method'' = Some (JStr ''image_only'')
   \<and> result_reading (predict_from_image (Some murky_green_image)) ''DO'' = Some (JNum 6)
   \<and> result_field (predict_from_image (Some murky_green_image)) ''water_quality'' = Some (JStr ''Safe'')"
  by (simp add: murky_green_image_def result_field_def result_reading_def predict_from_image_def
      analyze_image_features_def assess_risk_from_params_def params_risk_score_def dict_get_def
      risk_defs parameters_block_def readings_json_def)

lemma risk_nonneg:
  "0 \<le> pH_risk x" "0 \<le> Temperature_risk x" "0 \<le> TDS_risk x" "0 \<le> Turbidity_risk x" "0 \<le> DO_risk x"
  by (simp_all add: risk_defs)

lemma predict_from_image_on_params:
  assumes "analyze_image_features img = Some params" and "carries params r"
  shows "result_field (predict_from_image img) ''method'' = Some (JStr ''image_only'')
       \<and> result_field (predict_from_image img) ''water_quality''
           = Some (JStr (fst (spec_labels (reading_score r))))
       \<and> result_field (predict_from_image img) ''sensor_readings'' = Some (readings_json params)"
proof -
  obtain ph t tds tu d where r: "r = (ph, t, tds, tu, d)" by (cases r) auto
  have sc: "params_risk_score params = Inr (reading_score r)"
    using carries_params_score [OF assms(2)] .
  have pb: "\<exists>ps. parameters_block params = Inr ps"
    using assms(2) by (simp add: r carries_def parameters_block_def)
  then obtain ps where ps: "parameters_block params = Inr ps" ..
  show ?thesis
    by (simp add: result_field_def predict_from_image_def assms(1) assess_risk_from_params_def
        sc ps spec_labels_def Let_def)
qed


lemma image_params:
  "analyze_image_features (Some i) =
     Some [(''pH'', 7 + (green_ratio i * 2)),
           (''Temperature'', 20 + (brightness i / 10)),
           (''TDS'', 300 + (max 0 (min 10 ((100 - laplacian_var i) / 10)) * 30)),
           (''Turbidity'', max 0 (min 10 ((100 - laplacian_var i) / 10))),
           (''DO'', max 3 (8 - (green_ratio i * 5)))]"
  by (simp add: analyze_image_features_def Let_def)

text \<open>
  Claim C9, amended. For every image whose green ratio exceeds 0.6 and whose Laplacian
  variance is below 50, the image-only prediction has method \<^verbatim>\<open>image_only\<close>, its estimated
  DO is below 5 and its estimated Turbidity is above 5. Its quality is Unsafe when in
  addition the Laplacian variance is below 100/3 (the TDS estimate then exceeds 500), or the
  green ratio exceeds 0.75 (the pH estimate then exceeds 8.5), or the brightness exceeds 100
  (the Temperature estimate then exceeds 30).
\<close>

theorem heavy_green_low_clarity_unsafe:
  assumes "green_ratio i > 0.6" and "laplacian_var i < 50"
  shows "result_field (predict_from_image (Some i)) ''method'' = Some (JStr ''image_only'')
       \<and> result_reading (predict_from_image (Some i)) ''DO''
           = Some (JNum (max 3 (8 - (green_ratio i * 5))))
       \<and> max 3 (8 - (green_ratio i * 5)) < 5
       \<and> result_reading (predict_from_image (Some i)) ''Turbidity''
           = Some (JNum (max 0 (min 10 ((100 - laplacian_var i) / 10))))
       \<and> max 0 (min 10 ((100 - laplacian_var i) / 10)) > 5
       \<and> (laplacian_var i < 100 / 3 \<or> green_ratio i > 0.75 \<or> brightness i > 100 \<longrightarrow>
            result_field (predict_from_image (Some i)) ''water_quality'' = Some (JStr ''Unsafe''))"
proof -
  define tu where "tu = max 0 (min 10 ((100 - laplacian_var i) / 10))"
  define d where "d = max 3 (8 - (green_ratio i * 5))"
  define ph where "ph = 7 + (green_ratio i * 2)"
  define t where "t = 20 + (brightness i / 10)"
  define params where "params = [(''pH'', ph), (''Temperature'', t), (''TDS'', 300 + (tu * 30)),
                                 (''Turbidity'', tu), (''DO'', d)]"
  have p: "analyze_image_features (Some i) = Some params"
    unfolding params_def tu_def d_def ph_def t_def by (rule image_params)
  have c: "carries params (ph, t, 300 + (tu * 30), tu, d)"
    by (simp add: params_def carries_def dict_get_def)
  have tu: "tu > 5" using assms(2) by (simp add: tu_def)
  have d: "d < 5" using assms(1) by (simp add: d_def)
  have two: "Turbidity_risk tu \<ge> 1" "DO_risk d \<ge> 1"
    using tu d by (simp_all add: risk_defs)
  have f: "result_field (predict_from_image (Some i)) ''method'' = Some (JStr ''image_only'')"
    "result_field (predict_from_image (Some i)) ''water_quality''
       = Some (JStr (fst (spec_labels (reading_score (ph, t, 300 + (tu * 30), tu, d)))))"
    "result_field (predict_from_image (Some i)) ''sensor_readings'' = Some (readings_json params)"
    using predict_from_image_on_params [OF p c] by simp_all
  have rd: "result_reading (predict_from_image (Some i)) ''DO'' = Some (JNum d)"
    "result_reading (predict_from_image (Some i)) ''Turbidity'' = Some (JNum tu)"
    by (simp_all add: result_reading_def f(3) readings_json_def params_def)
  have unsafe: "result_field (predict_from_image (Some i)) ''water_quality'' = Some (JStr ''Unsafe'')"
    if more: "laplacian_var i < 100 / 3 \<or> green_ratio i > 0.75 \<or> brightness i > 100"
  proof -
    have third: "pH_risk ph + Temperature_risk t + TDS_risk (300 + (tu * 30)) \<ge> 1"
    proof -
      consider "laplacian_var i < 100 / 3" | "green_ratio i > 0.75" | "brightness i > 100"
        using more by blast
      then show ?thesis
      proof cases
        case 1
        then have "tu > 20 / 3" by (simp add: tu_def)
        then have "TDS_risk (300 + (tu * 30)) \<ge> 1" by (simp add: risk_defs)
        then show ?thesis
          using risk_nonneg(1) [of ph] risk_nonneg(2) [of t] by linarith
      next
        case 2
        then have "pH_risk ph \<ge> 1" by (simp add: risk_defs ph_def)
        then show ?thesis
          using risk_nonneg(3) [of "300 + (tu * 30)"] risk_nonneg(2) [of t] by linarith
      next
        case 3
        then have "Temperature_risk t \<ge> 1" by (simp add: risk_defs t_def)
        then show ?thesis
          using risk_nonneg(3) [of "300 + (tu * 30)"] risk_nonneg(1) [of ph] by linarith
      qed
    qed
    have "reading_score (ph, t, 300 + (tu * 30), tu, d) \<ge> 3"
      using two third by (simp add: reading_score_def)
    then have "fst (spec_labels (reading_score (ph, t, 300 + (tu * 30), tu, d))) = ''Unsafe''"
      by (simp add: spec_labels_def)
    then show ?thesis by (simp add: f(2))
  qed
  show ?thesis
    using f(1) rd tu d unsafe unfolding tu_def d_def by blast
qed

theorem heavy_green_low_clarity_unsafe_witness:
  "green_ratio algae_image > 0.6 \<and> laplacian_var algae_image < 50
   \<and> (laplacian_var algae_image < 100 / 3 \<or> green_ratio algae_image > 0.75 \<or> brightness algae_image > 100)
   \<and> result_reading (predict_from_image (Some algae_image)) ''DO'' = Some (JNum 4)
   \<and> result_reading (predict_from_image (Some algae_image)) ''Turbidity'' = Some (JNum 8)
   \<and> result_field (predict_from_image (Some algae_image)) ''water_quality'' = Some (JStr ''Unsafe'')
   \<and> green_ratio hazy_green_image > 0.6 \<and> laplacian_var hazy_green_image < 50
   \<and> result_field (predict_from_image (Some hazy_green_image)) ''method'' = Some (JStr ''image_only'')
   \<and> result_reading (predict_from_image (Some hazy_green_image)) ''DO'' = Some (JNum 4.5)
   \<and> result_reading (predict_from_image (Some hazy_green_image)) ''Turbidity'' = Some (JNum 6)"
proof -
  have h: "green_ratio algae_image > 0.6" "laplacian_var algae_image < 50"
    by (simp_all add: algae_image_def)
  have m: "laplacian_var algae_image < 100 / 3 \<or> green_ratio algae_image > 0.75 \<or> brightness algae_image > 100"
    by (simp add: algae_image_def)
  have v: "max 3 (8 - (green_ratio algae_image * 5)) = 4"
    "max 0 (min 10 ((100 - laplacian_var algae_image) / 10)) = 8"
    by (simp_all add: algae_image_def)
  have h': "green_ratio hazy_green_image > 0.6" "laplacian_var hazy_green_image < 50"
    by (simp_all add: hazy_green_image_def)
  have v': "max 3 (8 - (green_ratio hazy_green_image * 5)) = 4.5"
    "max 0 (min 10 ((100 - laplacian_var hazy_green_image) / 10)) = 6"
    by (simp_all add: hazy_green_image_def)
  show ?thesis
    using h m h' heavy_green_low_clarity_unsafe [OF h] heavy_green_low_clarity_unsafe [OF h']
    unfolding v v' by blast
qed

section \<open>The latest row decides\<close>

text \<open>
  Claim C10. In the sensor-only and hybrid paths the result depends on the last row of the
  sensor file only: two tables with the same column names and the same last row give the
  same output, for the hybrid path with the same image.
\<close>

theorem latest_row_decides:
  assumes "columns df1 = columns df2"
    and "rows df1 \<noteq> []" and "rows df2 \<noteq> []"
    and "last (rows df1) = last (rows df2)"
  shows "predict_from_sensor (Some df1) = predict_from_sensor (Some df2)
       \<and> predict img (Some df1) = predict img (Some df2)"
  using assms by (simp add: predict_from_sensor_def predict_def read_sensor_data_def latest_items_def)

theorem latest_row_decides_witness:
  "columns history_table = columns sample_table
   \<and> rows history_table \<noteq> [] \<and> rows sample_table \<noteq> []
   \<and> last (rows history_table) = last (rows sample_table)
   \<and> predict_from_sensor (Some history_table) = predict_from_sensor (Some sample_table)
   \<and> predict (Some murky_green_image) (Some history_table)
       = predict (Some murky_green_image) (Some sample_table)"
proof -
  have h: "columns history_table = columns sample_table"
    "rows history_table \<noteq> []" "rows sample_table \<noteq> []"
    "last (rows history_table) = last (rows sample_table)"
    by (simp_all add: history_table_def sample_table_def)
  show ?thesis
    using h latest_row_decides [OF h, of "Some murky_green_image"] by blast
qed


section \<open>The method tag of a result\<close>

lemma method_sensor_only:
  "succeeded (predict_from_sensor src) \<Longrightarrow>
   result_field (predict_from_sensor src) ''method'' = Some (JStr ''sensor_only'')"
  by (auto simp: succeeded_def result_field_def predict_from_sensor_def Let_def
      split: option.splits sum.splits if_splits prod.splits)

lemma method_image_only:
  "succeeded (predict_from_image img) \<Longrightarrow>
   result_field (predict_from_image img) ''method'' = Some (JStr ''image_only'')"
  by (auto simp: succeeded_def result_field_def predict_from_image_def Let_def
      split: option.splits sum.splits if_splits prod.splits)

lemma method_hybrid:
  "succeeded (predict img src) \<Longrightarrow>
   result_field (predict img src) ''method'' = Some (JStr ''hybrid_sensor_image'')"
  by (auto simp: succeeded_def result_field_def predict_def Let_def
      split: option.splits sum.splits if_splits prod.splits)

lemma method_local_model:
  "succeeded (make_prediction a im src mp) \<Longrightarrow>
   result_field (make_prediction a im src mp) ''method'' = None"
  by (auto simp: succeeded_def result_field_def make_prediction_def Let_def
      split: option.splits sum.splits if_splits prod.splits)

lemma method_s3_model:
  "succeeded (make_prediction_s3 l im src mp i1 i2 up) \<Longrightarrow>
   result_field (make_prediction_s3 l im src mp i1 i2 up) ''method''
     = Some (JStr ''hybrid_s3_model'')"
  by (auto simp: succeeded_def result_field_def make_prediction_s3_def Let_def
      split: option.splits sum.splits if_splits prod.splits)

lemma sample_sensor_succeeds: "succeeded (predict_from_sensor (Some sample_table))"
  by (simp add: succeeded_def predict_from_sensor_def sample_table_def latest_items_def
      standardize_step_def string_defs float_or_def fill_defaults_def set_default_def
      dict_get_def assess_risk_from_sensor_def sensor_risk_score_def risk_defs
      parameters_block_def)

lemma sample_hybrid_succeeds: "succeeded (predict None (Some sample_table))"
  by (simp add: succeeded_def predict_def read_sensor_data_def sample_table_def latest_items_def
      standardize_step_def string_defs float_or_def fill_defaults_def set_default_def
      dict_get_def analyze_image_def assess_risk_def hybrid_risk_score_def risk_defs
      parameters_block_def)

lemma sample_image_succeeds: "succeeded (predict_from_image (Some algae_image))"
  by (simp add: algae_image_def succeeded_def predict_from_image_def analyze_image_features_def
      assess_risk_from_params_def params_risk_score_def dict_get_def parameters_block_def risk_defs)

lemma sample_local_model_succeeds:
  "succeeded (make_prediction (Some (identity_scaler, trained_feature_config)) (Some ())
                (Some sample_numeric_table) fixed_model)"
  by (simp add: succeeded_def make_prediction_def preprocess_sensor_data_def
      sample_numeric_table_def trained_feature_config_def identity_scaler_def fixed_model_def
      standardize_columns_def column_mapping_def rename_column_def sensor_sequence_def
      dict_get_def available_features_def select_features_def SEQUENCE_LENGTH_def
      latest_reading_def row_item_def np_argmax_def)

lemma sample_s3_model_succeeds:
  "succeeded (make_prediction_s3 (Some (identity_scaler, fixed_encoder, trained_feature_config))
                (Some ()) (Some sample_s3_table) fixed_model
                ''20260101000000'' ''2026-01-01T00:00:00'' fixed_upload)"
  by (simp add: succeeded_def make_prediction_s3_def preprocess_sensor_data_s3_def
      sample_s3_table_def trained_feature_config_def identity_scaler_def fixed_model_def
      fixed_encoder_def fixed_upload_def canonical_name_def string_defs last_cell_def
      s3_feature_order_def get_np_or_def np_value_def json_serializable_def dict_get_def
      SEQUENCE_LENGTH_def np_argmax_def)

text \<open>
  Claim C2, as stated, fails: the hybrid script succeeds on the sample sensor file and its
  result carries the method \<^verbatim>\<open>hybrid_sensor_image\<close>, which is none of \<^verbatim>\<open>sensor_only\<close>,
  \<^verbatim>\<open>image_only\<close>, \<^verbatim>\<open>hybrid\<close>, \<^verbatim>\<open>fusion_model\<close>.
\<close>

theorem method_tag_counterexample:
  "succeeded (predict None (Some sample_table))
   \<and> result_field (predict None (Some sample_table)) ''method'' = Some (JStr ''hybrid_sensor_image'')
   \<and> \<not> method_in_spec (predict None (Some sample_table))"
  by (simp add: succeeded_def result_field_def method_in_spec_def spec_methods_def
      predict_def read_sensor_data_def sample_table_def latest_items_def standardize_step_def
      string_defs float_or_def fill_defaults_def set_default_def dict_get_def analyze_image_def
      assess_risk_def hybrid_risk_score_def risk_defs parameters_block_def)

text \<open>
  Claim C2, amended. Every successful prediction carries the tag of its script: the
  sensor-only script \<^verbatim>\<open>sensor_only\<close>, the image-only script \<^verbatim>\<open>image_only\<close>, the hybrid
  script \<^verbatim>\<open>hybrid_sensor_image\<close>, the model script on cached artifacts
  \<^verbatim>\<open>hybrid_s3_model\<close>; the result of the model script on local artifacts has no method
  field.
\<close>

theorem method_tag_per_script:
  "(succeeded (predict_from_sensor src) \<longrightarrow>
      result_field (predict_from_sensor src) ''method'' = Some (JStr ''sensor_only''))
   \<and> (succeeded (predict_from_image img) \<longrightarrow>
      result_field (predict_from_image img) ''method'' = Some (JStr ''image_only''))
   \<and> (succeeded (predict img' src') \<longrightarrow>
      result_field (predict img' src') ''method'' = Some (JStr ''hybrid_sensor_image''))
   \<and> (succeeded (make_prediction artifacts image_input nsrc model_predict) \<longrightarrow>
      result_field (make_prediction artifacts image_input nsrc model_predict) ''method'' = None)
   \<and> (succeeded (make_prediction_s3 loaded image_input' nsrc' model_predict' now_id now_iso upload) \<longrightarrow>
      result_field (make_prediction_s3 loaded image_input' nsrc' model_predict' now_id now_iso upload)
        ''method'' = Some (JStr ''hybrid_s3_model''))"
  using method_sensor_only method_image_only method_hybrid method_local_model method_s3_model
  by blast

theorem method_tag_per_script_witness:
  "succeeded (predict_from_sensor (Some sample_table))
   \<and> result_field (predict_from_sensor (Some sample_table)) ''method'' = Some (JStr ''sensor_only'')
   \<and> succeeded (predict_from_image (Some algae_image))
   \<and> result_field (predict_from_image (Some algae_image)) ''method'' = Some (JStr ''image_only'')
   \<and> succeeded (predict None (Some sample_table))
   \<and> result_field (predict None (Some sample_table)) ''method'' = Some (JStr ''hybrid_sensor_image'')
   \<and> succeeded (make_prediction (Some (identity_scaler, trained_feature_config)) (Some ())
                  (Some sample_numeric_table) fixed_model)
   \<and> result_field (make_prediction (Some (identity_scaler, trained_feature_config)) (Some ())
                     (Some sample_numeric_table) fixed_model) ''method'' = None
   \<and> succeeded (make_prediction_s3 (Some (identity_scaler, fixed_encoder, trained_feature_config))
                  (Some ()) (Some sample_s3_table) fixed_model
                  ''20260101000000'' ''2026-01-01T00:00:00'' fixed_upload)
   \<and> result_field (make_prediction_s3 (Some (identity_scaler, fixed_encoder, trained_feature_config))
                     (Some ()) (Some sample_s3_table) fixed_model
                     ''20260101000000'' ''2026-01-01T00:00:00'' fixed_upload) ''method''
       = Some (JStr ''hybrid_s3_model'')"
  using sample_sensor_succeeds sample_image_succeeds sample_hybrid_succeeds
    sample_local_model_succeeds sample_s3_model_succeeds
    method_tag_per_script [of "Some sample_table" "Some algae_image" None "Some sample_table"
      "Some (identity_scaler, trained_feature_config)" "Some ()" "Some sample_numeric_table"
      fixed_model "Some (identity_scaler, fixed_encoder, trained_feature_config)" "Some ()"
      "Some sample_s3_table" fixed_model "''20260101000000''" "''2026-01-01T00:00:00''"
      fixed_upload]
  by blast

section \<open>The sensor sequence of predict.py\<close>

lemmas sequence_defs = sensor_sequence_def dict_get_def available_features_def
  select_features_def SEQUENCE_LENGTH_def trained_feature_config_def







section \<open>Missing columns in predict.py\<close>

lemmas preprocess_defs = preprocess_sensor_data_def standardize_columns_def column_mapping_def
  rename_column_def latest_reading_def row_item_def identity_scaler_def

lemma two_column_sequence:
  "sensor_sequence (two_column_table\<lparr>columns := standardize_columns (columns two_column_table)\<rparr>)
     trained_feature_config = Inr (replicate 10 [7.2, 24])"
  by (simp add: sequence_defs two_column_table_def standardize_columns_def column_mapping_def
      rename_column_def Let_def eval_nat_numeral)

lemma two_column_reading: "latest_reading (replicate 10 [a, b]) = Inl IndexError"
  by (simp add: latest_reading_def row_item_def)

lemma missing_column_fails_any_scaler:
  "\<not> succeeded (preprocess_sensor_data (Some two_column_table) scaler trained_feature_config)"
  by (simp add: succeeded_def preprocess_sensor_data_def two_column_sequence two_column_reading
      Let_def split: option.splits)

text \<open>
  Claim C5 against predict.py. A numeric sensor file with the columns pH and Temperature
  only makes \<^verbatim>\<open>preprocess_sensor_data\<close> fail: the guards of \<^verbatim>\<open>latest_reading\<close> test the
  number of rows, which is 10, and the index 2 is then read from a row of width 2. With
  none of the recorded columns present the reading is the row 7.0, 25.0, 300.0, 5.0, 2.0,
  that is DO 5.0 where the documented default is 6.0. The sensor-only script on a file with
  the pH column only fills in Temperature 25.0 and DO 6.0.
\<close>

theorem missing_column_fails:
  "preprocess_sensor_data (Some two_column_table) identity_scaler trained_feature_config
     = Inl (SensorPreprocessingError IndexError)
   \<and> preprocess_sensor_data (Some unrelated_table) identity_scaler trained_feature_config
     = Inr (replicate 10 [7, 25, 300, 5, 2],
            [(''pH'', 7), (''Temperature'', 25), (''TDS'', 300), (''DO'', 5), (''Turbidity'', 2)])
   \<and> result_reading (predict_from_sensor (Some ph_only_table)) ''Temperature'' = Some (JNum 25)
   \<and> result_reading (predict_from_sensor (Some ph_only_table)) ''DO'' = Some (JNum 6)"
proof -
  have a: "preprocess_sensor_data (Some two_column_table) identity_scaler trained_feature_config
     = Inl (SensorPreprocessingError IndexError)"
    by (simp add: preprocess_sensor_data_def two_column_sequence two_column_reading
        identity_scaler_def Let_def)
  have b: "preprocess_sensor_data (Some unrelated_table) identity_scaler trained_feature_config
     = Inr (replicate 10 [7, 25, 300, 5, 2],
            [(''pH'', 7), (''Temperature'', 25), (''TDS'', 300), (''DO'', 5), (''Turbidity'', 2)])"
    by (simp add: preprocess_defs sequence_defs unrelated_table_def Let_def eval_nat_numeral)
  have c: "result_reading (predict_from_sensor (Some ph_only_table)) ''Temperature'' = Some (JNum 25)"
    "result_reading (predict_from_sensor (Some ph_only_table)) ''DO'' = Some (JNum 6)"
    by (simp_all add: result_reading_def result_field_def predict_from_sensor_def ph_only_table_def
        latest_items_def standardize_step_def string_defs float_or_def fill_defaults_def
        set_default_def dict_get_def assess_risk_from_sensor_def sensor_risk_score_def risk_defs
        parameters_block_def readings_json_def)
  show ?thesis using a b c by blast
qed

section \<open>The order of the features in the model paths\<close>




lemma by_name_column_order:
  assumes "map_of (zip cols row) = map_of (zip cols' row')"
  shows "by_name names cols row = by_name names cols' row'"
proof -
  have "named_cell cols row = named_cell cols' row'"
    by (rule ext) (simp add: named_cell_def assms)
  then show ?thesis by (simp add: by_name_def)
qed






text \<open>
  predict_s3.py is not part of the amended claim. It looks the order up under the key
  \<^verbatim>\<open>'columns'\<close>; with the configuration that training writes, which has the key
  \<^verbatim>\<open>'features'\<close> only, it uses its own fixed order.
\<close>

lemma s3_order_with_trained_config:
  "s3_feature_order trained_feature_config = [''pH'', ''Temperature'', ''TDS'', ''Turbidity'', ''DO'']"
  by (simp add: s3_feature_order_def trained_feature_config_def dict_get_def)


end
